theory Spec2Isabelle
  imports Main
begin

section \<open>The lazy postfix calculator of 42.cc\<close>

text \<open>
  The source is one C++ file: the exception classes, the class \<open>Lazy\<close> (a wrapper of
  \<open>std::function<int()>\<close>), the class \<open>LazyCalculator\<close> and a \<open>main\<close> that exercises it.
  The embedding is shallow:
  \<^item> an exception is a value of \<open>error\<close>, and a call that may throw returns
    \<open>error + 'a\<close> (\<open>Inl\<close> the exception);
  \<^item> behaviour that C++ leaves undefined (\<open>top\<close> or \<open>pop\<close> of an empty \<open>std::stack\<close>,
    an array index outside \<open>0..SIGNS-1\<close>, signed overflow, division by zero) is the
    error value \<open>UndefinedBehaviour\<close>: it is never mistaken for one of the exceptions;
  \<^item> everything outside the calculator that a user-supplied callable may read or write
    (the \<open>buffer\<close> of \<open>main\<close>, for instance) is a world of type \<open>'w\<close>, passed explicitly:
    a computation takes the world and returns its outcome with the new world;
  \<^item> the member \<open>stack\<close> is \<open>mutable\<close> and lives in the calculator object, so every
    member function returns the calculator it leaves behind, also when it throws.
\<close>

subsection \<open>Exceptions\<close>

datatype error =
    SyntaxError
  | UnknownOperator
  | OperatorAlreadyDefined
  | BadFunctionCall
  | UndefinedBehaviour

subsection \<open>Lazy\<close>

text \<open>\<open>std::function<int()>\<close>: a callable that may throw and may change the world.\<close>

type_synonym 'w producer = "'w \<Rightarrow> (error + int) \<times> 'w"

text \<open>
  The class has the single member \<open>func\<close>; the copy constructor copies it, so a copy
  is the same value. \<open>operator()\<close> calls \<open>func\<close>.
\<close>

datatype 'w Lazy = Lazy (func: "'w producer")

definition invoke :: "'w Lazy \<Rightarrow> 'w producer" where
  "invoke l w = func l w"

text \<open>\<open>std::function<int(Lazy, Lazy)>\<close>.\<close>

type_synonym 'w combinator = "'w Lazy \<Rightarrow> 'w Lazy \<Rightarrow> 'w producer"

subsection \<open>LazyCalculator: the data\<close>

text \<open>
  The array \<open>functions\<close> is \<open>functions_arr\<close> here (the name is reserved).
  The four arrays have \<open>SIGNS = 128\<close> slots and are indexed by
  \<open>static_cast<unsigned int>(c)\<close>. They are HOL functions of the character here, and
  \<open>index_ok\<close> says that the index is inside the arrays; every access is guarded by it.
  The head of the list \<open>stack\<close> is the top of the \<open>std::stack\<close>.
\<close>

definition SIGNS :: nat where
  "SIGNS = 128"

definition index_ok :: "char \<Rightarrow> bool" where
  "index_ok c = ((of_char c :: nat) < SIGNS)"

record 'w LazyCalculator =
  stack :: "'w Lazy list"
  functions_arr :: "char \<Rightarrow> 'w combinator"
  literals :: "char \<Rightarrow> 'w producer"
  is_function_defined :: "char \<Rightarrow> bool"
  is_literal_defined :: "char \<Rightarrow> bool"

subsection \<open>C++ int arithmetic\<close>

text \<open>
  \<open>int\<close> has 32 bits; an arithmetic result outside its range is undefined behaviour,
  and so is division by zero. \<open>/\<close> truncates towards zero.
\<close>

definition int_result :: "int \<Rightarrow> error + int" where
  "int_result v = (if - (2 ^ 31) \<le> v \<and> v < 2 ^ 31 then Inr v else Inl UndefinedBehaviour)"

definition int_div :: "int \<Rightarrow> int \<Rightarrow> error + int" where
  "int_div x y =
     (if y = 0 then Inl UndefinedBehaviour
      else int_result (sgn x * sgn y * (\<bar>x\<bar> div \<bar>y\<bar>)))"

text \<open>
  The four built-in lambdas \<open>a() op b()\<close>. C++ does not fix which operand is called
  first; the model calls \<open>a\<close> first. An exception of an operand ends the computation.
\<close>

definition binary :: "(int \<Rightarrow> int \<Rightarrow> error + int) \<Rightarrow> 'w combinator" where
  "binary opr a b w =
     (case invoke a w of
        (Inl e, w1) \<Rightarrow> (Inl e, w1)
      | (Inr x, w1) \<Rightarrow>
          (case invoke b w1 of
             (Inl e, w2) \<Rightarrow> (Inl e, w2)
           | (Inr y, w2) \<Rightarrow> (opr x y, w2)))"

definition plus_fn :: "'w combinator" where
  "plus_fn = binary (\<lambda>x y. int_result (x + y))"

definition minus_fn :: "'w combinator" where
  "minus_fn = binary (\<lambda>x y. int_result (x - y))"

definition times_fn :: "'w combinator" where
  "times_fn = binary (\<lambda>x y. int_result (x * y))"

definition divide_fn :: "'w combinator" where
  "divide_fn = binary int_div"

text \<open>The literal lambdas \<open>[](){return v;}\<close>.\<close>

definition literal_fn :: "int \<Rightarrow> 'w producer" where
  "literal_fn v w = (Inr v, w)"

subsection \<open>Registration\<close>

text \<open>
  \<open>define\<close> is \<open>define_op\<close> here (the name is reserved). It tests both tables;
  \<open>define_literal\<close> tests the literal table only.
  Both throw before they write, so a failed call leaves the calculator as it was.
\<close>

definition define_op :: "'w LazyCalculator \<Rightarrow> char \<Rightarrow> 'w combinator \<Rightarrow> error + 'w LazyCalculator" where
  "define_op calc c fn =
     (if \<not> index_ok c then Inl UndefinedBehaviour
      else if is_function_defined calc c \<or> is_literal_defined calc c
      then Inl OperatorAlreadyDefined
      else Inr (calc\<lparr>functions_arr := (functions_arr calc)(c := fn),
                     is_function_defined := (is_function_defined calc)(c := True)\<rparr>))"

definition define_function :: "'w LazyCalculator \<Rightarrow> char \<Rightarrow> 'w combinator \<Rightarrow> error + 'w LazyCalculator" where
  "define_function calc c f = define_op calc c f"

definition define_literal :: "'w LazyCalculator \<Rightarrow> char \<Rightarrow> 'w producer \<Rightarrow> error + 'w LazyCalculator" where
  "define_literal calc c fn =
     (if \<not> index_ok c then Inl UndefinedBehaviour
      else if is_literal_defined calc c then Inl OperatorAlreadyDefined
      else Inr (calc\<lparr>literals := (literals calc)(c := fn),
                     is_literal_defined := (is_literal_defined calc)(c := True)\<rparr>))"

subsection \<open>The constructor\<close>

text \<open>
  A default-constructed \<open>std::function\<close> is empty and throws \<open>std::bad_function_call\<close>
  when called. The constructor clears both flag arrays and registers the built-ins in
  the order of the source; \<open>and_then\<close> is the sequencing of statements that may throw.
\<close>

definition and_then :: "error + 'a \<Rightarrow> ('a \<Rightarrow> error + 'b) \<Rightarrow> error + 'b" where
  "and_then m f = (case m of Inl e \<Rightarrow> Inl e | Inr x \<Rightarrow> f x)"

definition cleared :: "'w LazyCalculator" where
  "cleared =
     \<lparr>stack = [],
      functions_arr = (\<lambda>c a b w. (Inl BadFunctionCall, w)),
      literals = (\<lambda>c w. (Inl BadFunctionCall, w)),
      is_function_defined = (\<lambda>c. False),
      is_literal_defined = (\<lambda>c. False)\<rparr>"

definition new_LazyCalculator :: "error + 'w LazyCalculator" where
  "new_LazyCalculator =
     and_then (define_literal cleared (CHR ''0'') (literal_fn 0)) (\<lambda>c1.
     and_then (define_literal c1 (CHR ''2'') (literal_fn 2)) (\<lambda>c2.
     and_then (define_literal c2 (CHR ''4'') (literal_fn 4)) (\<lambda>c3.
     and_then (define_function c3 (CHR ''+'') plus_fn) (\<lambda>c4.
     and_then (define_function c4 (CHR ''-'') minus_fn) (\<lambda>c5.
     and_then (define_function c5 (CHR ''*'') times_fn) (\<lambda>c6.
     define_function c6 (CHR ''/'') divide_fn))))))"

subsection \<open>Evaluation\<close>

text \<open>
  \<open>doOperation\<close> handles one character. The literal table is tested first. For an
  operator the source calls \<open>top\<close> and \<open>pop\<close> twice with no test of the size of the
  stack: on a stack with fewer than two elements that is undefined behaviour (with one
  element the first \<open>pop\<close> has already happened). The closure pushed for an operator
  captures \<open>a\<close>, \<open>b\<close>, \<open>this\<close> and \<open>c\<close> and reads \<open>functions[c]\<close> when it is called;
  \<open>define\<close> never overwrites a defined slot (lemma \<open>define_op_keeps_functions\<close>), so the
  model reads the slot when the closure is built. No callable is called here: the
  world is handed back as it came.
\<close>

definition doOperation ::
  "'w LazyCalculator \<Rightarrow> char \<Rightarrow> 'w \<Rightarrow> (error + unit) \<times> 'w LazyCalculator \<times> 'w" where
  "doOperation calc c w =
     (if \<not> index_ok c then (Inl UndefinedBehaviour, calc, w)
      else if is_literal_defined calc c
      then (Inr (), calc\<lparr>stack := Lazy (literals calc c) # stack calc\<rparr>, w)
      else if is_function_defined calc c
      then (case stack calc of
              [] \<Rightarrow> (Inl UndefinedBehaviour, calc, w)
            | b # below \<Rightarrow>
                (case below of
                   [] \<Rightarrow> (Inl UndefinedBehaviour, calc\<lparr>stack := below\<rparr>, w)
                 | a # rest \<Rightarrow>
                     (Inr (), calc\<lparr>stack := Lazy (\<lambda>u. functions_arr calc c a b u) # rest\<rparr>, w)))
      else (Inl UnknownOperator, calc, w))"

text \<open>The \<open>for_each\<close> of \<open>parse\<close>: an exception of \<open>doOperation\<close> leaves the loop.\<close>

fun for_each :: "'w LazyCalculator \<Rightarrow> string \<Rightarrow> 'w \<Rightarrow> (error + unit) \<times> 'w LazyCalculator \<times> 'w" where
  "for_each calc [] w = (Inr (), calc, w)"
| "for_each calc (c # cs) w =
     (case doOperation calc c w of
        (Inl e, calc', w') \<Rightarrow> (Inl e, calc', w')
      | (Inr u, calc', w') \<Rightarrow> for_each calc' cs w')"

definition parse ::
  "'w LazyCalculator \<Rightarrow> string \<Rightarrow> 'w \<Rightarrow> (error + 'w Lazy) \<times> 'w LazyCalculator \<times> 'w" where
  "parse calc s w =
     (case for_each calc s w of
        (Inl e, calc', w') \<Rightarrow> (Inl e, calc', w')
      | (Inr u, calc', w') \<Rightarrow>
          (case stack calc' of
             [a] \<Rightarrow> (Inr a, calc'\<lparr>stack := []\<rparr>, w')
           | _ \<Rightarrow> (Inl SyntaxError, calc', w')))"

definition calculate ::
  "'w LazyCalculator \<Rightarrow> string \<Rightarrow> 'w \<Rightarrow> (error + int) \<times> 'w LazyCalculator \<times> 'w" where
  "calculate calc s w =
     (case parse calc s w of
        (Inl e, calc', w') \<Rightarrow> (Inl e, calc', w')
      | (Inr a, calc', w') \<Rightarrow> (case invoke a w' of (r, w'') \<Rightarrow> (r, calc', w'')))"

subsection \<open>The callables of main\<close>

text \<open>
  \<open>main\<close> registers further operators. Its \<open>buffer\<close> is the world of these callables,
  a string. \<open>operator*\<close> turns \<open>n\<close> and a callable into the loop that calls it \<open>n\<close>
  times; \<open>manytimes\<close> converts its second operand to a \<open>std::function<void(void)>\<close>
  (a call of the \<open>Lazy\<close> whose result is dropped) and runs that loop.
\<close>

function operator_times_loop :: "int \<Rightarrow> int \<Rightarrow> 'w Lazy \<Rightarrow> 'w \<Rightarrow> (error + unit) \<times> 'w" where
  "operator_times_loop i n fn w =
     (if i < n
      then (case invoke fn w of
              (Inl e, w') \<Rightarrow> (Inl e, w')
            | (Inr v, w') \<Rightarrow> operator_times_loop (i + 1) n fn w')
      else (Inr (), w))"
  by pat_completeness auto
termination
  by (relation "measure (\<lambda>(i, n, fn, w). nat (n - i))") auto

declare operator_times_loop.simps [simp del]

definition operator_times :: "int \<Rightarrow> 'w Lazy \<Rightarrow> 'w \<Rightarrow> (error + unit) \<times> 'w" where
  "operator_times n fn w = operator_times_loop 0 n fn w"

definition manytimes :: "'w combinator" where
  "manytimes n fn w =
     (case invoke n w of
        (Inl e, w1) \<Rightarrow> (Inl e, w1)
      | (Inr k, w1) \<Rightarrow>
          (case operator_times k fn w1 of
             (Inl e, w2) \<Rightarrow> (Inl e, w2)
           | (Inr u, w2) \<Rightarrow> (Inr 0, w2)))"

text \<open>\<open>'!'\<close>: \<open>a()*10 + b()\<close>.\<close>

definition bang_fn :: "'w combinator" where
  "bang_fn = binary (\<lambda>x y. and_then (int_result (x * 10)) (\<lambda>p. int_result (p + y)))"

text \<open>\<open>','\<close>: \<open>a(); return b();\<close>.\<close>

definition comma_fn :: "'w combinator" where
  "comma_fn a b w =
     (case invoke a w of
        (Inl e, w1) \<Rightarrow> (Inl e, w1)
      | (Inr x, w1) \<Rightarrow> invoke b w1)"

text \<open>\<open>'P'\<close>: \<open>buffer += "pomidor"; return 0;\<close>.\<close>

definition pomidor_fn :: "string combinator" where
  "pomidor_fn a b buffer = (Inr 0, buffer @ ''pomidor'')"

text \<open>\<open>'?'\<close>: \<open>a() ? b() : 0\<close>.\<close>

definition question_fn :: "'w combinator" where
  "question_fn a b w =
     (case invoke a w of
        (Inl e, w1) \<Rightarrow> (Inl e, w1)
      | (Inr x, w1) \<Rightarrow> (if x \<noteq> 0 then invoke b w1 else (Inr 0, w1)))"

text \<open>\<open>'1'\<close>: \<open>return 1;\<close>.\<close>

definition one_fn :: "'w combinator" where
  "one_fn a b w = (Inr 1, w)"

text \<open>The calculator of \<open>main\<close> after all its successful \<open>define\<close> calls, in their order.\<close>

definition main_calculator :: "error + string LazyCalculator" where
  "main_calculator =
     and_then new_LazyCalculator (\<lambda>c0.
     and_then (define_op c0 (CHR ''!'') bang_fn) (\<lambda>c1.
     and_then (define_op c1 (CHR '','') comma_fn) (\<lambda>c2.
     and_then (define_op c2 (CHR ''P'') pomidor_fn) (\<lambda>c3.
     and_then (define_op c3 (CHR ''$'') manytimes) (\<lambda>c4.
     and_then (define_op c4 (CHR ''?'') question_fn) (\<lambda>c5.
     define_op c5 (CHR ''1'') one_fn))))))"

text \<open>
  The calculator that the constructor leaves, written out
  (lemma \<open>new_LazyCalculator_builtin\<close>).
\<close>

definition builtin :: "'w LazyCalculator" where
  "builtin =
     \<lparr>stack = [],
      functions_arr = (\<lambda>c a b w. (Inl BadFunctionCall, w))
        (CHR ''+'' := plus_fn, CHR ''-'' := minus_fn, CHR ''*'' := times_fn,
         CHR ''/'' := divide_fn),
      literals = (\<lambda>c w. (Inl BadFunctionCall, w))
        (CHR ''0'' := literal_fn 0, CHR ''2'' := literal_fn 2, CHR ''4'' := literal_fn 4),
      is_function_defined = (\<lambda>c. False)
        (CHR ''+'' := True, CHR ''-'' := True, CHR ''*'' := True, CHR ''/'' := True),
      is_literal_defined = (\<lambda>c. False)
        (CHR ''0'' := True, CHR ''2'' := True, CHR ''4'' := True)\<rparr>"

text \<open>The calculator of \<open>main\<close>, written out (lemma \<open>main_calculator_main_calc\<close>).\<close>

definition main_calc :: "string LazyCalculator" where
  "main_calc =
     \<lparr>stack = [],
      functions_arr = (\<lambda>c a b w. (Inl BadFunctionCall, w))
        (CHR ''+'' := plus_fn, CHR ''-'' := minus_fn, CHR ''*'' := times_fn,
         CHR ''/'' := divide_fn, CHR ''!'' := bang_fn, CHR '','' := comma_fn,
         CHR ''P'' := pomidor_fn, CHR ''$'' := manytimes, CHR ''?'' := question_fn,
         CHR ''1'' := one_fn),
      literals = (\<lambda>c w. (Inl BadFunctionCall, w))
        (CHR ''0'' := literal_fn 0, CHR ''2'' := literal_fn 2, CHR ''4'' := literal_fn 4),
      is_function_defined = (\<lambda>c. False)
        (CHR ''+'' := True, CHR ''-'' := True, CHR ''*'' := True, CHR ''/'' := True,
         CHR ''!'' := True, CHR '','' := True, CHR ''P'' := True, CHR ''$'' := True,
         CHR ''?'' := True, CHR ''1'' := True),
      is_literal_defined = (\<lambda>c. False)
        (CHR ''0'' := True, CHR ''2'' := True, CHR ''4'' := True)\<rparr>"

subsection \<open>What the specification says of calculate\<close>

text \<open>
  The specification describes \<open>calculate(text)\<close> as \<open>evaluate(text).invoke()\<close>: the
  error of \<open>evaluate\<close> if it fails, and otherwise the integer and the effects of
  invoking the returned thunk in the world of the caller. \<open>spec_calculate\<close> follows
  these words; \<open>calculate\<close> above follows the source.
\<close>

definition spec_calculate ::
  "'w LazyCalculator \<Rightarrow> string \<Rightarrow> 'w \<Rightarrow> (error + int) \<times> 'w LazyCalculator \<times> 'w" where
  "spec_calculate calc s w =
     (case parse calc s w of
        (Inl e, calc', w') \<Rightarrow> (Inl e, calc', w)
      | (Inr t, calc', w') \<Rightarrow> (fst (invoke t w), calc', snd (invoke t w)))"

section \<open>Basic facts\<close>

lemma index_ok_builtin:
  "index_ok (CHR ''0'')" "index_ok (CHR ''2'')" "index_ok (CHR ''4'')"
  "index_ok (CHR ''+'')" "index_ok (CHR ''-'')" "index_ok (CHR ''*'')" "index_ok (CHR ''/'')"
  by (simp_all add: index_ok_def SIGNS_def)

lemma index_ok_main:
  "index_ok (CHR ''!'')" "index_ok (CHR '','')" "index_ok (CHR ''P'')"
  "index_ok (CHR ''$'')" "index_ok (CHR ''?'')" "index_ok (CHR ''1'')" "index_ok (CHR ''&'')"
  by (simp_all add: index_ok_def SIGNS_def)

lemma new_LazyCalculator_builtin: "new_LazyCalculator = Inr builtin"
  by (simp add: new_LazyCalculator_def and_then_def define_literal_def define_function_def
      define_op_def cleared_def builtin_def index_ok_builtin)

lemma define_op_keeps_functions:
  assumes "is_function_defined calc c" and "define_op calc c' fn = Inr calc'"
  shows "functions_arr calc' c = functions_arr calc c \<and> is_function_defined calc' c"
  using assms by (auto simp: define_op_def split: if_splits)

lemma define_literal_keeps_functions:
  assumes "define_literal calc c' fn = Inr calc'"
  shows "functions_arr calc' = functions_arr calc \<and> is_function_defined calc' = is_function_defined calc"
  using assms by (auto simp: define_literal_def split: if_splits)

lemma doOperation_world: "snd (snd (doOperation calc c w)) = w"
  by (simp add: doOperation_def split: list.split)

lemma for_each_world: "snd (snd (for_each calc s w)) = w"
proof (induction s arbitrary: calc)
  case Nil
  show ?case by simp
next
  case (Cons c cs)
  obtain r calc1 w1 where step: "doOperation calc c w = (r, calc1, w1)"
    by (cases "doOperation calc c w") auto
  with doOperation_world [of calc c w] have "w1 = w" by simp
  with step Cons.IH [of calc1] show ?case
    by (cases r) simp_all
qed

lemma parse_world: "snd (snd (parse calc s w)) = w"
proof -
  obtain r calc1 w1 where run: "for_each calc s w = (r, calc1, w1)"
    by (cases "for_each calc s w") auto
  with for_each_world [of calc s w] have "w1 = w" by simp
  with run show ?thesis
    by (cases r) (simp_all add: parse_def split: list.split)
qed

lemma for_each_append:
  "for_each calc (s @ t) w =
     (case for_each calc s w of
        (Inl e, calc', w') \<Rightarrow> (Inl e, calc', w')
      | (Inr u, calc', w') \<Rightarrow> for_each calc' t w')"
  by (induction s arbitrary: calc w) (auto split: prod.split sum.split)

lemma doOperation_literal:
  assumes "index_ok c" and "is_literal_defined calc c"
  shows "doOperation calc c w = (Inr (), calc\<lparr>stack := Lazy (literals calc c) # stack calc\<rparr>, w)"
  using assms by (simp add: doOperation_def)

lemma doOperation_operator:
  assumes "index_ok c" and "\<not> is_literal_defined calc c" and "is_function_defined calc c"
    and "stack calc = b # a # rest"
  shows "doOperation calc c w =
           (Inr (), calc\<lparr>stack := Lazy (\<lambda>u. functions_arr calc c a b u) # rest\<rparr>, w)"
  using assms by (simp add: doOperation_def)

lemma doOperation_underflow:
  assumes "index_ok c" and "\<not> is_literal_defined calc c" and "is_function_defined calc c"
    and "length (stack calc) < 2"
  shows "fst (doOperation calc c w) = Inl UndefinedBehaviour"
  using assms by (auto simp: doOperation_def split: list.split)

lemma doOperation_unknown:
  assumes "index_ok c" and "\<not> is_literal_defined calc c" and "\<not> is_function_defined calc c"
  shows "doOperation calc c w = (Inl UnknownOperator, calc, w)"
  using assms by (simp add: doOperation_def)

lemma define_op_bound:
  assumes "index_ok c" and "is_function_defined calc c \<or> is_literal_defined calc c"
  shows "define_op calc c fn = Inl OperatorAlreadyDefined"
  using assms by (auto simp: define_op_def)

lemma define_literal_bound_literal:
  assumes "index_ok c" and "is_literal_defined calc c"
  shows "define_literal calc c fn = Inl OperatorAlreadyDefined"
  using assms by (simp add: define_literal_def)

lemma parse_success_empties_stack:
  assumes "parse calc s w = (Inr t, calc', w')"
  shows "stack calc' = []"
  using assms by (auto simp: parse_def split: prod.splits sum.splits list.splits)

lemmas eval_defs =
  calculate_def parse_def doOperation_def builtin_def index_ok_def SIGNS_def invoke_def
  plus_fn_def minus_fn_def times_fn_def divide_fn_def int_div_def binary_def literal_fn_def
  int_result_def

lemma main_calculator_main_calc: "main_calculator = Inr main_calc"
  by (simp add: main_calculator_def new_LazyCalculator_builtin and_then_def define_op_def
      builtin_def main_calc_def index_ok_main)

lemma doOperation_only_stack:
  "fst (snd (doOperation calc c w)) = calc\<lparr>stack := stack (fst (snd (doOperation calc c w)))\<rparr>"
  by (simp add: doOperation_def split: list.split)

lemma for_each_only_stack:
  "fst (snd (for_each calc s w)) = calc\<lparr>stack := stack (fst (snd (for_each calc s w)))\<rparr>"
proof (induction s arbitrary: calc w)
  case Nil
  show ?case by simp
next
  case (Cons c cs)
  obtain r calc1 w1 where step: "doOperation calc c w = (r, calc1, w1)"
    by (cases "doOperation calc c w") auto
  with doOperation_only_stack [of calc c w] have c1: "calc1 = calc\<lparr>stack := stack calc1\<rparr>"
    by simp
  show ?case
  proof (cases r)
    case (Inl e)
    with step c1 show ?thesis by simp
  next
    case (Inr u)
    have "fst (snd (for_each calc1 cs w1)) =
            calc1\<lparr>stack := stack (fst (snd (for_each calc1 cs w1)))\<rparr>"
      by (rule Cons.IH)
    also have "\<dots> = calc\<lparr>stack := stack (fst (snd (for_each calc1 cs w1)))\<rparr>"
      by (subst c1) simp
    finally show ?thesis using step Inr by simp
  qed
qed

lemma operator_times_loop_runs:
  assumes "\<forall>x. \<exists>v. fst (invoke fn x) = Inr v"
  shows "operator_times_loop i n fn w = (Inr (), ((\<lambda>x. snd (invoke fn x)) ^^ nat (n - i)) w)"
  using assms
proof (induction i n fn w rule: operator_times_loop.induct)
  case (1 i n fn w)
  note total = "1.prems"
  show ?case
  proof (cases "i < n")
    case False
    then show ?thesis by (simp add: operator_times_loop.simps [of i n fn w])
  next
    case True
    from total obtain v where v: "fst (invoke fn w) = Inr v" by blast
    define w' where "w' = snd (invoke fn w)"
    have call: "invoke fn w = (Inr v, w')"
      using v by (simp add: w'_def prod_eq_iff)
    have count: "nat (n - i) = Suc (nat (n - (i + 1)))"
      using True by simp
    have "operator_times_loop i n fn w = operator_times_loop (i + 1) n fn w'"
      using True call by (simp add: operator_times_loop.simps [of i n fn w])
    also have "\<dots> = (Inr (), ((\<lambda>x. snd (invoke fn x)) ^^ nat (n - (i + 1))) w')"
      using "1.IH" [OF True call [symmetric] refl total] .
    also have "((\<lambda>x. snd (invoke fn x)) ^^ nat (n - (i + 1))) w'
                 = ((\<lambda>x. snd (invoke fn x)) ^^ nat (n - i)) w"
      by (simp only: count funpow_Suc_right o_apply w'_def)
    finally show ?thesis .
  qed
qed

lemma manytimes_runs:
  assumes "invoke a u = (Inr k, u1)" and "\<forall>x. \<exists>v. fst (invoke b x) = Inr v"
  shows "manytimes a b u = (Inr 0, ((\<lambda>x. snd (invoke b x)) ^^ nat k) u1)"
  using assms by (simp add: manytimes_def operator_times_def operator_times_loop_runs)

lemma question_fn_skips:
  assumes "invoke a u = (Inr 0, u1)"
  shows "question_fn a b u = (Inr 0, u1)"
  using assms by (simp add: question_fn_def)

lemmas main_defs =
  calculate_def parse_def doOperation_def main_calc_def index_ok_def SIGNS_def invoke_def
  plus_fn_def minus_fn_def times_fn_def divide_fn_def int_div_def binary_def literal_fn_def
  int_result_def bang_fn_def comma_fn_def pomidor_fn_def question_fn_def one_fn_def and_then_def

subsection \<open>The assertions of main hold in the model\<close>

text \<open>
  The assertions of \<open>main\<close> on short inputs, with the buffer as the world. The four bad
  inputs are tried in the order of the source, each on the calculator the previous call
  left behind.
\<close>

lemma main_assertions:
  "calculate main_calc ''0'' ''buffer'' = (Inr 0, main_calc, ''buffer'')"
  "calculate main_calc ''42!'' ''buffer'' = (Inr 42, main_calc, ''buffer'')"
  "calculate main_calc ''042P?'' ''buffer'' = (Inr 0, main_calc, ''buffer'')"
  "calculate main_calc ''021'' ''buffer'' = (Inr 1, main_calc, ''buffer'')"
  "calculate main_calc ''42P42P,'' [] = (Inr 0, main_calc, ''pomidorpomidor'')"
  "fst (calculate main_calc ''02&'' ''buffer'') = Inl UnknownOperator"
  "define_op main_calc (CHR ''!'') bang_fn = Inl OperatorAlreadyDefined"
  "define_op main_calc (CHR ''0'') one_fn = Inl OperatorAlreadyDefined"
  by (simp_all add: main_defs define_op_def)

lemma main_syntax_error_loop:
  "calculate main_calc [] ''buffer'' = (Inl SyntaxError, main_calc, ''buffer'')"
  "fst (calculate main_calc ''42'' ''buffer'') = Inl SyntaxError"
  "fst (calculate (fst (snd (calculate main_calc ''42'' ''buffer''))) ''4+'' ''buffer'')
     = Inl SyntaxError"
  "fst (calculate (fst (snd (calculate (fst (snd (calculate main_calc ''42'' ''buffer'')))
                                       ''4+'' ''buffer'')))
          ''424+'' ''buffer'') = Inl SyntaxError"
  by (simp_all add: main_defs)

section \<open>The claims\<close>

subsection \<open>C1: an operator on a stack of fewer than two elements\<close>

text \<open>
  Claim C1 says that an operator token met while the stack holds fewer than two
  elements makes \<open>evaluate\<close> and \<open>calculate\<close> fail with \<open>SyntaxError\<close>, through a test
  of the depth before any pop. The source has no such test (lemma
  \<open>doOperation_underflow\<close>). On the freshly constructed calculator the inputs
  \<open>"4+"\<close> and \<open>"+"\<close> reach \<open>top\<close> of an empty stack: the outcome is undefined
  behaviour, not \<open>SyntaxError\<close>.
\<close>

theorem underflow_is_undefined:
  "(new_LazyCalculator :: error + string LazyCalculator) = Inr builtin
   \<and> calculate builtin ''4+'' ''buffer'' = (Inl UndefinedBehaviour, builtin, ''buffer'')
   \<and> calculate builtin ''+'' ''buffer'' = (Inl UndefinedBehaviour, builtin, ''buffer'')
   \<and> fst (parse builtin ''4+'' ''buffer'') \<noteq> Inl SyntaxError
   \<and> fst (parse builtin ''+'' ''buffer'') \<noteq> Inl SyntaxError"
  by (simp add: new_LazyCalculator_builtin) (simp add: eval_defs)

subsection \<open>C2: registering a token that is already bound\<close>

text \<open>
  Claim C2 says that every registration of a bound token fails with the
  already-defined error and leaves the binding as it was. \<open>define\<close> does so for both
  tables (lemma \<open>define_op_bound\<close>), and \<open>define_literal\<close> for a token bound as a literal
  (lemma \<open>define_literal_bound_literal\<close>). But \<open>define_literal\<close> on a token bound as an
  operator succeeds: on the fresh calculator, \<open>define_literal('+', 7)\<close> returns
  normally, and afterwards \<open>'+'\<close> is a literal: \<open>"42+"\<close>, which was 6, is a syntax error,
  and \<open>"+"\<close> is 7.
\<close>

theorem define_literal_rebinds_operator:
  "(new_LazyCalculator :: error + string LazyCalculator) = Inr builtin
   \<and> is_function_defined (builtin :: string LazyCalculator) (CHR ''+'')
   \<and> define_op (builtin :: string LazyCalculator) (CHR ''+'') plus_fn
       = Inl OperatorAlreadyDefined
   \<and> define_literal (builtin :: string LazyCalculator) (CHR ''+'') (literal_fn 7)
       = Inr (builtin\<lparr>literals := (literals builtin)(CHR ''+'' := literal_fn 7),
                    is_literal_defined :=
                      (is_literal_defined (builtin :: string LazyCalculator))(CHR ''+'' := True)\<rparr>)
   \<and> fst (calculate (builtin :: string LazyCalculator) ''42+'' ''buffer'') = Inr 6
   \<and> fst (calculate
            (builtin\<lparr>literals := (literals builtin)(CHR ''+'' := literal_fn 7),
                    is_literal_defined :=
                      (is_literal_defined (builtin :: string LazyCalculator))(CHR ''+'' := True)\<rparr>)
            ''42+'' ''buffer'') = Inl SyntaxError
   \<and> fst (calculate
            (builtin\<lparr>literals := (literals builtin)(CHR ''+'' := literal_fn 7),
                    is_literal_defined :=
                      (is_literal_defined (builtin :: string LazyCalculator))(CHR ''+'' := True)\<rparr>)
            ''+'' ''buffer'') = Inr 7"
  by (simp add: new_LazyCalculator_builtin) (simp add: eval_defs define_op_def define_literal_def)

subsection \<open>C3: the stack between two calls\<close>

text \<open>
  Claim C3 says that every call of \<open>evaluate\<close> starts on an empty stack, so that its
  outcome does not depend on earlier calls, failed ones included. A successful
  \<open>parse\<close> leaves the stack empty (lemma \<open>parse_success_empties_stack\<close>), but a failed
  one leaves its thunks on the member \<open>stack\<close>, and the next call starts on them. On
  the fresh calculator \<open>"2"\<close> is 2; after the failed \<open>"42"\<close> the same \<open>"2"\<close> is a syntax
  error, \<open>"+"\<close> is 6, and after the failed \<open>"4&"\<close> the empty text is 4.
\<close>

theorem stack_survives_failed_parse:
  "(new_LazyCalculator :: error + string LazyCalculator) = Inr builtin
   \<and> fst (calculate builtin ''2'' ''buffer'') = Inr 2
   \<and> fst (calculate builtin ''42'' ''buffer'') = Inl SyntaxError
   \<and> stack (fst (snd (calculate builtin ''42'' ''buffer'')))
       = [Lazy (literal_fn 2), Lazy (literal_fn 4)]
   \<and> fst (calculate (fst (snd (calculate builtin ''42'' ''buffer''))) ''2'' ''buffer'')
       = Inl SyntaxError
   \<and> fst (calculate (fst (snd (calculate builtin ''42'' ''buffer''))) ''+'' ''buffer'')
       = Inr 6
   \<and> fst (calculate (fst (snd (calculate builtin ''4&'' ''buffer''))) [] ''buffer'')
       = Inr 4"
  by (simp add: new_LazyCalculator_builtin) (simp add: eval_defs)

subsection \<open>C4: an operator pushes a thunk over its unevaluated operands\<close>

text \<open>
  Claim C4. For every operator token, \<open>doOperation\<close> pops the two operand thunks and
  pushes a thunk \<open>t\<close> without running anything (the world is returned unchanged).
  Invoking \<open>t\<close> in any world \<open>u\<close> is the combinator applied to the operand thunks
  themselves in \<open>u\<close>: operands are handed over as thunks, not as values, and nothing is
  cached between invocations. So an operand runs as often as the combinator invokes
  it. For the combinator \<open>manytimes\<close> of the source, which invokes its second operand
  \<open>k\<close> times (\<open>k\<close> the value of the first), the world after one invocation of \<open>t\<close> is
  the world after \<open>k\<close> consecutive runs of that operand, none for \<open>k \<le> 0\<close>; for the
  conditional \<open>a() ? b() : 0\<close> of the source, the second operand does not run at all
  when the first yields 0, whatever that operand would do.
\<close>

theorem operator_thunk_is_lazy:
  assumes "index_ok c" and "\<not> is_literal_defined calc c" and "is_function_defined calc c"
    and "stack calc = b # a # rest"
  shows "\<exists>t. doOperation calc c w = (Inr (), calc\<lparr>stack := t # rest\<rparr>, w)
           \<and> (\<forall>u. invoke t u = functions_arr calc c a b u)
           \<and> (functions_arr calc c = manytimes \<longrightarrow>
                (\<forall>u k u1. invoke a u = (Inr k, u1) \<and> (\<forall>x. \<exists>v. fst (invoke b x) = Inr v)
                   \<longrightarrow> invoke t u = (Inr 0, ((\<lambda>x. snd (invoke b x)) ^^ nat k) u1)))
           \<and> (functions_arr calc c = question_fn \<longrightarrow>
                (\<forall>u u1. invoke a u = (Inr 0, u1) \<longrightarrow> invoke t u = (Inr 0, u1)))"
proof -
  let ?t = "Lazy (\<lambda>u. functions_arr calc c a b u)"
  have step: "doOperation calc c w = (Inr (), calc\<lparr>stack := ?t # rest\<rparr>, w)"
    using assms by (rule doOperation_operator)
  have run: "\<forall>u. invoke ?t u = functions_arr calc c a b u"
    by (simp add: invoke_def)
  have rep: "functions_arr calc c = manytimes \<longrightarrow>
                (\<forall>u k u1. invoke a u = (Inr k, u1) \<and> (\<forall>x. \<exists>v. fst (invoke b x) = Inr v)
                   \<longrightarrow> invoke ?t u = (Inr 0, ((\<lambda>x. snd (invoke b x)) ^^ nat k) u1))"
    using run by (auto simp: manytimes_runs)
  have skip: "functions_arr calc c = question_fn \<longrightarrow>
                (\<forall>u u1. invoke a u = (Inr 0, u1) \<longrightarrow> invoke ?t u = (Inr 0, u1))"
    using run by (auto simp: question_fn_skips)
  from step run rep skip show ?thesis by blast
qed

theorem operator_thunk_is_lazy_witness:
  "index_ok (CHR ''$'')
   \<and> \<not> is_literal_defined (main_calc\<lparr>stack := [Lazy (pomidor_fn (Lazy (literal_fn 4)) (Lazy (literal_fn 2))), Lazy (literal_fn 2)]\<rparr>) (CHR ''$'')
   \<and> is_function_defined (main_calc\<lparr>stack := [Lazy (pomidor_fn (Lazy (literal_fn 4)) (Lazy (literal_fn 2))), Lazy (literal_fn 2)]\<rparr>) (CHR ''$'')
   \<and> functions_arr (main_calc\<lparr>stack := [Lazy (pomidor_fn (Lazy (literal_fn 4)) (Lazy (literal_fn 2))), Lazy (literal_fn 2)]\<rparr>) (CHR ''$'') = manytimes
   \<and> invoke (Lazy (literal_fn 2)) ''x'' = (Inr 2, ''x'')
   \<and> (\<forall>x. \<exists>v. fst (invoke (Lazy (pomidor_fn (Lazy (literal_fn 4)) (Lazy (literal_fn 2)))) x) = Inr v)
   \<and> (\<exists>t. doOperation (main_calc\<lparr>stack := [Lazy (pomidor_fn (Lazy (literal_fn 4)) (Lazy (literal_fn 2))), Lazy (literal_fn 2)]\<rparr>) (CHR ''$'') ''x''
            = (Inr (), main_calc\<lparr>stack := [t]\<rparr>, ''x'')
          \<and> invoke t ''x'' = (Inr 0, ''xpomidorpomidor''))
   \<and> index_ok (CHR ''?'')
   \<and> \<not> is_literal_defined (main_calc\<lparr>stack := [Lazy (pomidor_fn (Lazy (literal_fn 4)) (Lazy (literal_fn 2))), Lazy (literal_fn 0)]\<rparr>) (CHR ''?'')
   \<and> is_function_defined (main_calc\<lparr>stack := [Lazy (pomidor_fn (Lazy (literal_fn 4)) (Lazy (literal_fn 2))), Lazy (literal_fn 0)]\<rparr>) (CHR ''?'')
   \<and> functions_arr (main_calc\<lparr>stack := [Lazy (pomidor_fn (Lazy (literal_fn 4)) (Lazy (literal_fn 2))), Lazy (literal_fn 0)]\<rparr>) (CHR ''?'') = question_fn
   \<and> invoke (Lazy (literal_fn 0)) ''x'' = (Inr 0, ''x'')
   \<and> invoke (Lazy (pomidor_fn (Lazy (literal_fn 4)) (Lazy (literal_fn 2)))) ''x'' = (Inr 0, ''xpomidor'')
   \<and> (\<exists>t. doOperation (main_calc\<lparr>stack := [Lazy (pomidor_fn (Lazy (literal_fn 4)) (Lazy (literal_fn 2))), Lazy (literal_fn 0)]\<rparr>) (CHR ''?'') ''x''
            = (Inr (), main_calc\<lparr>stack := [t]\<rparr>, ''x'')
          \<and> invoke t ''x'' = (Inr 0, ''x''))"
proof -
  let ?b = "Lazy (pomidor_fn (Lazy (literal_fn 4)) (Lazy (literal_fn 2)))"
  let ?a = "Lazy (literal_fn 2) :: string Lazy"
  let ?z = "Lazy (literal_fn 0) :: string Lazy"
  let ?calc = "main_calc\<lparr>stack := [?b, ?a]\<rparr>"
  let ?cond = "main_calc\<lparr>stack := [?b, ?z]\<rparr>"
  have h1: "index_ok (CHR ''$'')" by (rule index_ok_main)
  have h2: "\<not> is_literal_defined ?calc (CHR ''$'')" by (simp add: main_calc_def)
  have h3: "is_function_defined ?calc (CHR ''$'')" by (simp add: main_calc_def)
  have h4: "stack ?calc = ?b # ?a # []" by simp
  have h5: "functions_arr ?calc (CHR ''$'') = manytimes" by (simp add: main_calc_def)
  have h6: "invoke ?a ''x'' = (Inr 2, ''x'')" by (simp add: invoke_def literal_fn_def)
  have h7: "\<forall>x. \<exists>v. fst (invoke ?b x) = Inr v" by (simp add: invoke_def pomidor_fn_def)
  from operator_thunk_is_lazy [OF h1 h2 h3 h4, of "''x''"]
  obtain t where t1: "doOperation ?calc (CHR ''$'') ''x'' = (Inr (), ?calc\<lparr>stack := [t]\<rparr>, ''x'')"
    and t3: "functions_arr ?calc (CHR ''$'') = manytimes \<longrightarrow>
              (\<forall>u k u1. invoke ?a u = (Inr k, u1) \<and> (\<forall>x. \<exists>v. fst (invoke ?b x) = Inr v)
                 \<longrightarrow> invoke t u = (Inr 0, ((\<lambda>x. snd (invoke ?b x)) ^^ nat k) u1))"
    by blast
  from t3 h5 h6 h7 have "invoke t ''x'' = (Inr 0, ((\<lambda>x. snd (invoke ?b x)) ^^ nat 2) ''x'')"
    by blast
  then have t4: "invoke t ''x'' = (Inr 0, ''xpomidorpomidor'')"
    by (simp add: eval_nat_numeral invoke_def pomidor_fn_def)
  from t1 have t5: "doOperation ?calc (CHR ''$'') ''x'' = (Inr (), main_calc\<lparr>stack := [t]\<rparr>, ''x'')"
    by simp
  from t4 t5 have many: "\<exists>t. doOperation ?calc (CHR ''$'') ''x'' = (Inr (), main_calc\<lparr>stack := [t]\<rparr>, ''x'')
          \<and> invoke t ''x'' = (Inr 0, ''xpomidorpomidor'')"
    by blast
  have g1: "index_ok (CHR ''?'')" by (rule index_ok_main)
  have g2: "\<not> is_literal_defined ?cond (CHR ''?'')" by (simp add: main_calc_def)
  have g3: "is_function_defined ?cond (CHR ''?'')" by (simp add: main_calc_def)
  have g4: "stack ?cond = ?b # ?z # []" by simp
  have g5: "functions_arr ?cond (CHR ''?'') = question_fn" by (simp add: main_calc_def)
  have g6: "invoke ?z ''x'' = (Inr 0, ''x'')" by (simp add: invoke_def literal_fn_def)
  have g7: "invoke ?b ''x'' = (Inr 0, ''xpomidor'')" by (simp add: invoke_def pomidor_fn_def)
  from operator_thunk_is_lazy [OF g1 g2 g3 g4, of "''x''"]
  obtain s where s1: "doOperation ?cond (CHR ''?'') ''x'' = (Inr (), ?cond\<lparr>stack := [s]\<rparr>, ''x'')"
    and s3: "functions_arr ?cond (CHR ''?'') = question_fn \<longrightarrow>
              (\<forall>u u1. invoke ?z u = (Inr 0, u1) \<longrightarrow> invoke s u = (Inr 0, u1))"
    by blast
  from s3 g5 g6 have s4: "invoke s ''x'' = (Inr 0, ''x'')"
    by blast
  from s1 have s5: "doOperation ?cond (CHR ''?'') ''x'' = (Inr (), main_calc\<lparr>stack := [s]\<rparr>, ''x'')"
    by simp
  from s4 s5 have cond: "\<exists>t. doOperation ?cond (CHR ''?'') ''x'' = (Inr (), main_calc\<lparr>stack := [t]\<rparr>, ''x'')
          \<and> invoke t ''x'' = (Inr 0, ''x'')"
    by blast
  from h1 h2 h3 h5 h6 h7 many g1 g2 g3 g5 g6 g7 cond show ?thesis
    by (intro conjI)
qed

subsection \<open>C5: parsing runs no callable\<close>

text \<open>
  Claim C5. Whenever \<open>parse\<close> returns a thunk, the world after the call is the world
  before it: no literal producer and no combinator has run, whatever their effects
  would be. They run when the returned thunk is invoked, as the witness shows on
  \<open>"42P"\<close>: parsing leaves the buffer alone, invoking the thunk appends to it.
\<close>

theorem parse_runs_no_callable:
  assumes "fst (parse calc s w) = Inr t"
  shows "snd (snd (parse calc s w)) = w"
  by (rule parse_world)

theorem parse_runs_no_callable_witness:
  "fst (parse main_calc ''42P'' ''buffer'')
     = Inr (Lazy (\<lambda>u. pomidor_fn (Lazy (literal_fn 4)) (Lazy (literal_fn 2)) u))
   \<and> snd (snd (parse main_calc ''42P'' ''buffer'')) = ''buffer''
   \<and> invoke (Lazy (\<lambda>u. pomidor_fn (Lazy (literal_fn 4)) (Lazy (literal_fn 2)) u)) ''buffer''
       = (Inr 0, ''bufferpomidor'')"
proof -
  have h: "fst (parse main_calc ''42P'' ''buffer'')
            = Inr (Lazy (\<lambda>u. pomidor_fn (Lazy (literal_fn 4)) (Lazy (literal_fn 2)) u))"
    by (simp add: parse_def doOperation_def main_calc_def index_ok_def SIGNS_def)
  have r: "invoke (Lazy (\<lambda>u. pomidor_fn (Lazy (literal_fn 4)) (Lazy (literal_fn 2)) u)) ''buffer''
       = (Inr 0, ''bufferpomidor'')"
    by (simp add: invoke_def pomidor_fn_def)
  from h r parse_runs_no_callable [OF h] show ?thesis by (intro conjI)
qed

subsection \<open>C6: the built-in operators and the order of the operands\<close>

text \<open>
  Claim C6. On the calculator that the constructor builds, \<open>calculate\<close> gives 6 for
  \<open>"42+"\<close>, -2 for \<open>"24-"\<close>, 8 for \<open>"42*"\<close>, 2 for \<open>"42/"\<close>, 0 for \<open>"42-2-"\<close> and
  \<open>"242--"\<close>, and 2 for \<open>"22+2-2*2/0-"\<close>, in every world and leaving world and
  calculator as they were. On an operator token the top of the stack is the second
  operand \<open>b\<close>, the element beneath it the first operand \<open>a\<close>, and the thunk pushed in
  their place computes the combinator of the token applied to \<open>a\<close> and \<open>b\<close>.
\<close>

theorem builtin_arithmetic:
  "\<exists>calc. new_LazyCalculator = Inr calc
     \<and> calculate calc ''42+'' (w::'w) = (Inr 6, calc, w)
     \<and> calculate calc ''24-'' w = (Inr (- 2), calc, w)
     \<and> calculate calc ''42*'' w = (Inr 8, calc, w)
     \<and> calculate calc ''42/'' w = (Inr 2, calc, w)
     \<and> calculate calc ''42-2-'' w = (Inr 0, calc, w)
     \<and> calculate calc ''242--'' w = (Inr 0, calc, w)
     \<and> calculate calc ''22+2-2*2/0-'' w = (Inr 2, calc, w)
     \<and> (\<forall>k c b a rest (u::'w).
           index_ok c \<and> \<not> is_literal_defined k c \<and> is_function_defined k c
           \<and> stack k = b # a # rest
           \<longrightarrow> doOperation k c u
                 = (Inr (), k\<lparr>stack := Lazy (\<lambda>x. functions_arr k c a b x) # rest\<rparr>, u))"
proof -
  have t1: "calculate builtin ''42+'' w = (Inr 6, builtin, w)"
    by (simp add: eval_defs)
  have t2: "calculate builtin ''24-'' w = (Inr (- 2), builtin, w)"
    by (simp add: eval_defs)
  have t3: "calculate builtin ''42*'' w = (Inr 8, builtin, w)"
    by (simp add: eval_defs)
  have t4: "calculate builtin ''42/'' w = (Inr 2, builtin, w)"
    by (simp add: eval_defs)
  have t5: "calculate builtin ''42-2-'' w = (Inr 0, builtin, w)"
    by (simp add: eval_defs)
  have t6: "calculate builtin ''242--'' w = (Inr 0, builtin, w)"
    by (simp add: eval_defs)
  have t7: "calculate builtin ''22+2-2*2/0-'' w = (Inr 2, builtin, w)"
    by (simp add: eval_defs)
  have ord: "\<forall>k c b a rest (u::'w).
           index_ok c \<and> \<not> is_literal_defined k c \<and> is_function_defined k c
           \<and> stack k = b # a # rest
           \<longrightarrow> doOperation k c u
                 = (Inr (), k\<lparr>stack := Lazy (\<lambda>x. functions_arr k c a b x) # rest\<rparr>, u)"
    by (simp add: doOperation_operator)
  show ?thesis
    by (rule exI [of _ builtin])
       (intro conjI; fact new_LazyCalculator_builtin t1 t2 t3 t4 t5 t6 t7 ord)
qed

theorem builtin_arithmetic_witness:
  "index_ok (CHR ''-'')
   \<and> \<not> is_literal_defined (builtin\<lparr>stack := [Lazy (literal_fn 4), Lazy (literal_fn 2)]\<rparr> :: string LazyCalculator) (CHR ''-'')
   \<and> is_function_defined (builtin\<lparr>stack := [Lazy (literal_fn 4), Lazy (literal_fn 2)]\<rparr> :: string LazyCalculator) (CHR ''-'')
   \<and> stack (builtin\<lparr>stack := [Lazy (literal_fn 4), Lazy (literal_fn 2)]\<rparr> :: string LazyCalculator)
        = [Lazy (literal_fn 4), Lazy (literal_fn 2)]
   \<and> doOperation (builtin\<lparr>stack := [Lazy (literal_fn 4), Lazy (literal_fn 2)]\<rparr>) (CHR ''-'') ''buffer''
        = (Inr (), builtin\<lparr>stack := [Lazy (\<lambda>x. minus_fn (Lazy (literal_fn 2)) (Lazy (literal_fn 4)) x)]\<rparr>, ''buffer'')
   \<and> minus_fn (Lazy (literal_fn 2)) (Lazy (literal_fn 4)) ''buffer'' = (Inr (- 2), ''buffer'')"
proof -
  let ?k = "builtin\<lparr>stack := [Lazy (literal_fn 4), Lazy (literal_fn 2)]\<rparr> :: string LazyCalculator"
  have h1: "index_ok (CHR ''-'')" by (rule index_ok_builtin)
  have h2: "\<not> is_literal_defined ?k (CHR ''-'')" by (simp add: builtin_def)
  have h3: "is_function_defined ?k (CHR ''-'')" by (simp add: builtin_def)
  have h4: "stack ?k = Lazy (literal_fn 4) # Lazy (literal_fn 2) # []" by simp
  have f: "functions_arr (builtin :: string LazyCalculator) (CHR ''-'') = minus_fn"
    by (simp add: builtin_def)
  from builtin_arithmetic [where ?'w = string and w = "''buffer''"]
  have "\<forall>k c b a rest (u::string).
           index_ok c \<and> \<not> is_literal_defined k c \<and> is_function_defined k c
           \<and> stack k = b # a # rest
           \<longrightarrow> doOperation k c u
                 = (Inr (), k\<lparr>stack := Lazy (\<lambda>x. functions_arr k c a b x) # rest\<rparr>, u)"
    by (elim exE conjE)
  then have "index_ok (CHR ''-'') \<and> \<not> is_literal_defined ?k (CHR ''-'') \<and> is_function_defined ?k (CHR ''-'')
           \<and> stack ?k = Lazy (literal_fn 4) # Lazy (literal_fn 2) # []
           \<longrightarrow> doOperation ?k (CHR ''-'') ''buffer''
          = (Inr (), ?k\<lparr>stack := Lazy (\<lambda>x. functions_arr ?k (CHR ''-'') (Lazy (literal_fn 2)) (Lazy (literal_fn 4)) x) # []\<rparr>, ''buffer'')"
    by (elim allE)
  with h1 h2 h3 h4
  have "doOperation ?k (CHR ''-'') ''buffer''
          = (Inr (), ?k\<lparr>stack := Lazy (\<lambda>x. functions_arr ?k (CHR ''-'') (Lazy (literal_fn 2)) (Lazy (literal_fn 4)) x) # []\<rparr>, ''buffer'')"
    by (elim impE) (intro conjI)
  then have d: "doOperation ?k (CHR ''-'') ''buffer''
        = (Inr (), builtin\<lparr>stack := [Lazy (\<lambda>x. minus_fn (Lazy (literal_fn 2)) (Lazy (literal_fn 4)) x)]\<rparr>, ''buffer'')"
    by (simp add: f)
  have v: "minus_fn (Lazy (literal_fn 2)) (Lazy (literal_fn 4)) ''buffer'' = (Inr (- 2), ''buffer'')"
    by (simp add: minus_fn_def binary_def invoke_def literal_fn_def int_result_def)
  from h1 h2 h3 h4 d v show ?thesis by (intro conjI)
qed

subsection \<open>C7: the test after the scan\<close>

text \<open>
  Claim C7. When all characters have been consumed, \<open>parse\<close> throws \<open>SyntaxError\<close>
  unless the stack holds exactly one element, and otherwise pops that element and
  returns it. On a calculator whose stack is empty the empty text is a syntax error;
  on the calculator that the constructor builds, the empty text, \<open>"42"\<close> and \<open>"424+"\<close>
  are syntax errors, for \<open>parse\<close> and for \<open>calculate\<close>.
\<close>

theorem terminal_check:
  "(\<forall>calc s (w::'w) calc' w'. for_each calc s w = (Inr (), calc', w') \<longrightarrow>
       (length (stack calc') \<noteq> 1 \<longrightarrow> parse calc s w = (Inl SyntaxError, calc', w'))
     \<and> (\<forall>a. stack calc' = [a] \<longrightarrow> parse calc s w = (Inr a, calc'\<lparr>stack := []\<rparr>, w')))
   \<and> (\<forall>calc (w::'w). stack calc = [] \<longrightarrow> parse calc [] w = (Inl SyntaxError, calc, w))
   \<and> (\<exists>calc. new_LazyCalculator = Inr calc
         \<and> fst (parse calc [] (w0::'w)) = Inl SyntaxError
         \<and> fst (parse calc ''42'' w0) = Inl SyntaxError
         \<and> fst (parse calc ''424+'' w0) = Inl SyntaxError
         \<and> fst (calculate calc [] w0) = Inl SyntaxError
         \<and> fst (calculate calc ''42'' w0) = Inl SyntaxError
         \<and> fst (calculate calc ''424+'' w0) = Inl SyntaxError)"
proof -
  have gen: "\<forall>calc s (w::'w) calc' w'. for_each calc s w = (Inr (), calc', w') \<longrightarrow>
       (length (stack calc') \<noteq> 1 \<longrightarrow> parse calc s w = (Inl SyntaxError, calc', w'))
     \<and> (\<forall>a. stack calc' = [a] \<longrightarrow> parse calc s w = (Inr a, calc'\<lparr>stack := []\<rparr>, w'))"
    by (auto simp: parse_def split: list.split)
  have emp: "\<forall>calc (w::'w). stack calc = [] \<longrightarrow> parse calc [] w = (Inl SyntaxError, calc, w)"
    by (simp add: parse_def)
  have c: "fst (parse builtin [] w0) = Inl SyntaxError"
    "fst (parse builtin ''42'' w0) = Inl SyntaxError"
    "fst (parse builtin ''424+'' w0) = Inl SyntaxError"
    "fst (calculate builtin [] w0) = Inl SyntaxError"
    "fst (calculate builtin ''42'' w0) = Inl SyntaxError"
    "fst (calculate builtin ''424+'' w0) = Inl SyntaxError"
    by (simp_all add: eval_defs)
  have ex: "\<exists>calc. new_LazyCalculator = Inr calc
         \<and> fst (parse calc [] w0) = Inl SyntaxError
         \<and> fst (parse calc ''42'' w0) = Inl SyntaxError
         \<and> fst (parse calc ''424+'' w0) = Inl SyntaxError
         \<and> fst (calculate calc [] w0) = Inl SyntaxError
         \<and> fst (calculate calc ''42'' w0) = Inl SyntaxError
         \<and> fst (calculate calc ''424+'' w0) = Inl SyntaxError"
    by (rule exI [of _ builtin]) (intro conjI; fact new_LazyCalculator_builtin c)
  from gen emp ex show ?thesis
    by (intro conjI)
qed


theorem terminal_check_witness:
  "for_each builtin ''42'' ''buffer''
     = (Inr (), builtin\<lparr>stack := [Lazy (literal_fn 2), Lazy (literal_fn 4)]\<rparr>, ''buffer'')
   \<and> length (stack (builtin\<lparr>stack := [Lazy (literal_fn 2), Lazy (literal_fn 4)]\<rparr> :: string LazyCalculator)) \<noteq> 1
   \<and> parse builtin ''42'' ''buffer''
     = (Inl SyntaxError, builtin\<lparr>stack := [Lazy (literal_fn 2), Lazy (literal_fn 4)]\<rparr>, ''buffer'')
   \<and> for_each builtin ''4'' ''buffer''
     = (Inr (), builtin\<lparr>stack := [Lazy (literal_fn 4)]\<rparr>, ''buffer'')
   \<and> stack (builtin\<lparr>stack := [Lazy (literal_fn 4)]\<rparr> :: string LazyCalculator) = [Lazy (literal_fn 4)]
   \<and> parse builtin ''4'' ''buffer'' = (Inr (Lazy (literal_fn 4)), builtin, ''buffer'')
   \<and> stack (builtin :: string LazyCalculator) = []
   \<and> parse builtin [] ''buffer'' = (Inl SyntaxError, builtin, ''buffer'')"
proof -
  let ?two = "builtin\<lparr>stack := [Lazy (literal_fn 2), Lazy (literal_fn 4)]\<rparr> :: string LazyCalculator"
  let ?one = "builtin\<lparr>stack := [Lazy (literal_fn 4)]\<rparr> :: string LazyCalculator"
  have f2: "for_each builtin ''42'' ''buffer'' = (Inr (), ?two, ''buffer'')"
    by (simp add: doOperation_def builtin_def index_ok_def SIGNS_def)
  have l2: "length (stack ?two) \<noteq> 1" by simp
  have f1: "for_each builtin ''4'' ''buffer'' = (Inr (), ?one, ''buffer'')"
    by (simp add: doOperation_def builtin_def index_ok_def SIGNS_def)
  have l1: "stack ?one = [Lazy (literal_fn 4)]" by simp
  have e: "stack (builtin :: string LazyCalculator) = []" by (simp add: builtin_def)
  note tc = terminal_check [where ?'w = string and ?w0.0 = "''buffer''"]
  from tc f2 l2 have p2: "parse builtin ''42'' ''buffer'' = (Inl SyntaxError, ?two, ''buffer'')"
    by blast
  from tc f1 l1 have "parse builtin ''4'' ''buffer'' = (Inr (Lazy (literal_fn 4)), ?one\<lparr>stack := []\<rparr>, ''buffer'')"
    by blast
  then have p1: "parse builtin ''4'' ''buffer'' = (Inr (Lazy (literal_fn 4)), builtin, ''buffer'')"
    by (simp add: builtin_def)
  from tc e have p0: "parse builtin [] ''buffer'' = (Inl SyntaxError, builtin, ''buffer'')"
    by blast
  from f2 l2 p2 f1 l1 p1 e p0 show ?thesis by (intro conjI)
qed

subsection \<open>C8: calculate is evaluate followed by invoke\<close>

text \<open>
  Claim C8. For every calculator, text and world, \<open>calculate\<close> of the source agrees
  with \<open>spec_calculate\<close>: the same integer or the same error, the same calculator left
  behind, and exactly the effects of invoking the returned thunk in the caller's world
  (no effects when parsing fails).
\<close>

theorem calculate_refines_spec: "calculate calc s w = spec_calculate calc s w"
proof -
  obtain r calc1 w1 where run: "parse calc s w = (r, calc1, w1)"
    by (cases "parse calc s w") auto
  with parse_world [of calc s w] have "w1 = w" by simp
  with run show ?thesis
    by (cases r) (simp_all add: calculate_def spec_calculate_def split: prod.split)
qed

subsection \<open>C9: a token that is not bound\<close>

text \<open>
  Claim C9. Let the scan of a prefix succeed, with any stack before and after it, and
  let the next character be a token (a character code below \<open>SIGNS\<close>) that is bound
  neither as a literal nor as an operator. Then \<open>parse\<close> and \<open>calculate\<close> throw
  \<open>UnknownOperator\<close> there: the rest of the text is not looked at, and the calculator
  and the world are as the prefix left them.
\<close>

theorem unknown_token_aborts:
  assumes "for_each calc pre w = (Inr (), calc1, w1)"
    and "index_ok c" and "\<not> is_literal_defined calc c" and "\<not> is_function_defined calc c"
  shows "parse calc (pre @ c # rest) w = (Inl UnknownOperator, calc1, w1)
         \<and> calculate calc (pre @ c # rest) w = (Inl UnknownOperator, calc1, w1)"
proof -
  from for_each_only_stack [of calc pre w] assms(1)
  have c1: "calc1 = calc\<lparr>stack := stack calc1\<rparr>" by simp
  have "\<not> is_literal_defined calc1 c" and "\<not> is_function_defined calc1 c"
    using assms(3,4) by (subst c1, simp)+
  with assms(2) have "doOperation calc1 c w1 = (Inl UnknownOperator, calc1, w1)"
    by (rule doOperation_unknown)
  with assms(1) have "for_each calc (pre @ c # rest) w = (Inl UnknownOperator, calc1, w1)"
    by (simp add: for_each_append)
  then show ?thesis by (simp add: parse_def calculate_def)
qed

theorem unknown_token_aborts_witness:
  "for_each main_calc ''02'' ''buffer''
     = (Inr (), main_calc\<lparr>stack := [Lazy (literal_fn 2), Lazy (literal_fn 0)]\<rparr>, ''buffer'')
   \<and> index_ok (CHR ''&'')
   \<and> \<not> is_literal_defined main_calc (CHR ''&'')
   \<and> \<not> is_function_defined main_calc (CHR ''&'')
   \<and> parse main_calc ''02&42P'' ''buffer''
     = (Inl UnknownOperator, main_calc\<lparr>stack := [Lazy (literal_fn 2), Lazy (literal_fn 0)]\<rparr>, ''buffer'')
   \<and> calculate main_calc ''02&42P'' ''buffer''
     = (Inl UnknownOperator, main_calc\<lparr>stack := [Lazy (literal_fn 2), Lazy (literal_fn 0)]\<rparr>, ''buffer'')"
proof -
  let ?c1 = "main_calc\<lparr>stack := [Lazy (literal_fn 2), Lazy (literal_fn 0)]\<rparr>"
  have h1: "for_each main_calc ''02'' ''buffer'' = (Inr (), ?c1, ''buffer'')"
    by (simp add: doOperation_def main_calc_def index_ok_def SIGNS_def)
  have h2: "index_ok (CHR ''&'')" by (rule index_ok_main)
  have h3: "\<not> is_literal_defined main_calc (CHR ''&'')" by (simp add: main_calc_def)
  have h4: "\<not> is_function_defined main_calc (CHR ''&'')" by (simp add: main_calc_def)
  from unknown_token_aborts [OF h1 h2 h3 h4, of "''42P''"]
  have r: "parse main_calc ''02&42P'' ''buffer'' = (Inl UnknownOperator, ?c1, ''buffer'')
         \<and> calculate main_calc ''02&42P'' ''buffer'' = (Inl UnknownOperator, ?c1, ''buffer'')"
    by simp
  from h1 h2 h3 h4 r show ?thesis by (intro conjI) simp_all
qed

subsection \<open>C10: a token bound in both tables is a literal\<close>

text \<open>
  Claim C10. If a token is bound both as a literal and as an operator, \<open>doOperation\<close>
  pushes the thunk of the literal; the operator bound to the token plays no part, for
  the outcome is the same whatever the array \<open>functions\<close> holds. The state is
  reachable: the witness is the calculator that \<open>define_literal('+', 7)\<close> leaves when
  applied to the fresh calculator.
\<close>

theorem literal_table_wins:
  assumes "index_ok c" and "is_literal_defined calc c" and "is_function_defined calc c"
  shows "doOperation calc c w = (Inr (), calc\<lparr>stack := Lazy (literals calc c) # stack calc\<rparr>, w)
         \<and> (\<forall>F. doOperation (calc\<lparr>functions_arr := F\<rparr>) c w =
                  (Inr (), calc\<lparr>functions_arr := F, stack := Lazy (literals calc c) # stack calc\<rparr>, w))"
  using assms by (simp add: doOperation_def)

theorem literal_table_wins_witness:
  "define_literal (builtin :: string LazyCalculator) (CHR ''+'') (literal_fn 7)
     = Inr (builtin\<lparr>literals := (literals builtin)(CHR ''+'' := literal_fn 7),
                  is_literal_defined := (is_literal_defined (builtin :: string LazyCalculator))(CHR ''+'' := True)\<rparr>)
   \<and> index_ok (CHR ''+'')
   \<and> is_literal_defined (builtin\<lparr>literals := (literals builtin)(CHR ''+'' := literal_fn 7),
                  is_literal_defined := (is_literal_defined (builtin :: string LazyCalculator))(CHR ''+'' := True)\<rparr> :: string LazyCalculator) (CHR ''+'')
   \<and> is_function_defined (builtin\<lparr>literals := (literals builtin)(CHR ''+'' := literal_fn 7),
                  is_literal_defined := (is_literal_defined (builtin :: string LazyCalculator))(CHR ''+'' := True)\<rparr> :: string LazyCalculator) (CHR ''+'')
   \<and> doOperation (builtin\<lparr>literals := (literals builtin)(CHR ''+'' := literal_fn 7),
                  is_literal_defined := (is_literal_defined (builtin :: string LazyCalculator))(CHR ''+'' := True)\<rparr>) (CHR ''+'') ''buffer''
       = (Inr (), builtin\<lparr>literals := (literals builtin)(CHR ''+'' := literal_fn 7),
                  is_literal_defined := (is_literal_defined (builtin :: string LazyCalculator))(CHR ''+'' := True),
                  stack := [Lazy (literal_fn 7)]\<rparr>, ''buffer'')"
proof -
  let ?k = "builtin\<lparr>literals := (literals builtin)(CHR ''+'' := literal_fn 7),
                  is_literal_defined := (is_literal_defined (builtin :: string LazyCalculator))(CHR ''+'' := True)\<rparr> :: string LazyCalculator"
  have d: "define_literal (builtin :: string LazyCalculator) (CHR ''+'') (literal_fn 7) = Inr ?k"
    by (simp add: define_literal_def index_ok_builtin) (simp add: builtin_def)
  have h1: "index_ok (CHR ''+'')" by (rule index_ok_builtin)
  have h2: "is_literal_defined ?k (CHR ''+'')" by simp
  have h3: "is_function_defined ?k (CHR ''+'')" by (simp add: builtin_def)
  from literal_table_wins [OF h1 h2 h3, of "''buffer''"]
  have "doOperation ?k (CHR ''+'') ''buffer''
          = (Inr (), ?k\<lparr>stack := Lazy (literals ?k (CHR ''+'')) # stack ?k\<rparr>, ''buffer'')"
    by blast
  then have r: "doOperation ?k (CHR ''+'') ''buffer'' = (Inr (), ?k\<lparr>stack := [Lazy (literal_fn 7)]\<rparr>, ''buffer'')"
    by (simp add: builtin_def)
  from d h1 h2 h3 r show ?thesis by (intro conjI)
qed

end
